theory Spec2Isabelle
  imports Complex_Main
begin

section \<open>JavaScript numbers\<close>

text \<open>
  A JavaScript \<^verbatim>\<open>Number\<close> is a finite value, one of the two infinities, or \<^verbatim>\<open>NaN\<close>.
  Finite values are kept as exact rationals: a money amount is a decimal, and binary
  rounding error and the sign of zero are outside this development.
\<close>

datatype number = NaN | NegInf | Fin rat | PosInf

text \<open>\<^verbatim>\<open>a < b\<close> and \<^verbatim>\<open>a <= b\<close>: every comparison with \<^verbatim>\<open>NaN\<close> is false.\<close>

fun num_lt :: "number \<Rightarrow> number \<Rightarrow> bool" where
  "num_lt NaN _ = False"
| "num_lt _ NaN = False"
| "num_lt PosInf _ = False"
| "num_lt _ NegInf = False"
| "num_lt NegInf _ = True"
| "num_lt _ PosInf = True"
| "num_lt (Fin a) (Fin b) = (a < b)"

fun num_le :: "number \<Rightarrow> number \<Rightarrow> bool" where
  "num_le NaN _ = False"
| "num_le _ NaN = False"
| "num_le NegInf _ = True"
| "num_le _ PosInf = True"
| "num_le PosInf _ = False"
| "num_le _ NegInf = False"
| "num_le (Fin a) (Fin b) = (a \<le> b)"

text \<open>\<^verbatim>\<open>a >= b\<close>, as the store evaluates \<^verbatim>\<open>{ $gte: b }\<close> on a field holding \<^verbatim>\<open>a\<close>.\<close>

definition num_ge :: "number \<Rightarrow> number \<Rightarrow> bool" where
  "num_ge a b = num_le b a"

fun num_add :: "number \<Rightarrow> number \<Rightarrow> number" where
  "num_add NaN _ = NaN"
| "num_add _ NaN = NaN"
| "num_add PosInf NegInf = NaN"
| "num_add NegInf PosInf = NaN"
| "num_add PosInf _ = PosInf"
| "num_add _ PosInf = PosInf"
| "num_add NegInf _ = NegInf"
| "num_add _ NegInf = NegInf"
| "num_add (Fin a) (Fin b) = Fin (a + b)"

fun num_neg :: "number \<Rightarrow> number" where
  "num_neg NaN = NaN"
| "num_neg NegInf = PosInf"
| "num_neg PosInf = NegInf"
| "num_neg (Fin a) = Fin (- a)"

fun Math_abs :: "number \<Rightarrow> number" where
  "Math_abs NaN = NaN"
| "Math_abs NegInf = PosInf"
| "Math_abs PosInf = PosInf"
| "Math_abs (Fin a) = Fin \<bar>a\<bar>"

text \<open>\<^verbatim>\<open>v * 100\<close> and \<^verbatim>\<open>v / 100\<close>.\<close>

fun times100 :: "number \<Rightarrow> number" where
  "times100 (Fin a) = Fin (a * 100)"
| "times100 v = v"

fun div100 :: "number \<Rightarrow> number" where
  "div100 (Fin a) = Fin (a / 100)"
| "div100 v = v"

text \<open>
  \<^verbatim>\<open>Math.round(x)\<close> is the integer nearest to \<^verbatim>\<open>x\<close>, a tie going towards
  \<open>+\<infinity>\<close>: \<open>\<lfloor>x + 1/2\<rfloor>\<close>.
\<close>

fun Math_round :: "number \<Rightarrow> number" where
  "Math_round (Fin a) = Fin (of_int \<lfloor>a + 1 / 2\<rfloor>)"
| "Math_round v = v"

text \<open>\<^verbatim>\<open>isNaN(v)\<close>.\<close>

fun isNaN :: "number \<Rightarrow> bool" where
  "isNaN NaN = True"
| "isNaN _ = False"

text \<open>
  \<^verbatim>\<open>Math.round(v * 100) / 100\<close>: the expression of the balance getter and setter, of the
  amount getter and setter, of \<^verbatim>\<open>roundedDelta\<close> and of \<^verbatim>\<open>transferAmount\<close>.
\<close>

definition round2 :: "number \<Rightarrow> number" where
  "round2 v = div100 (Math_round (times100 v))"

section \<open>Strings\<close>

text \<open>
  Strings are lists of one-byte characters. \<^verbatim>\<open>trim()\<close> and the regular expression class
  \<^verbatim>\<open>\S\<close> are taken over the white space of that range: tab, line feed, vertical tab,
  form feed, carriage return and space.
\<close>

definition is_space :: "char \<Rightarrow> bool" where
  "is_space c = (c \<in> set [CHR 0x09, CHR 0x0A, CHR 0x0B, CHR 0x0C, CHR 0x0D, CHR 0x20])"

definition trim :: "string \<Rightarrow> string" where
  "trim s = rev (dropWhile is_space (rev (dropWhile is_space s)))"

definition lower_char :: "char \<Rightarrow> char" where
  "lower_char c =
     (case map_of (zip ''ABCDEFGHIJKLMNOPQRSTUVWXYZ'' ''abcdefghijklmnopqrstuvwxyz'') c of
        None \<Rightarrow> c
      | Some d \<Rightarrow> d)"

definition toLowerCase :: "string \<Rightarrow> string" where
  "toLowerCase s = map lower_char s"

text \<open>\<^verbatim>\<open>s.includes(p)\<close>: \<open>p\<close> occurs in \<open>s\<close> as a contiguous substring.\<close>

fun is_prefix :: "string \<Rightarrow> string \<Rightarrow> bool" where
  "is_prefix [] _ = True"
| "is_prefix (p # ps) [] = False"
| "is_prefix (p # ps) (c # cs) = (p = c \<and> is_prefix ps cs)"

fun str_includes :: "string \<Rightarrow> string \<Rightarrow> bool" where
  "str_includes [] p = (p = [])"
| "str_includes (c # cs) p = (is_prefix p (c # cs) \<or> str_includes cs p)"

text \<open>
  The email pattern \<^verbatim>\<open>/^\S+@\S+\.\S+$/\<close>: no white space anywhere, an \<^verbatim>\<open>@\<close> after at
  least one character, then at least one character, a dot, and at least one character.
\<close>

definition email_match :: "string \<Rightarrow> bool" where
  "email_match s =
     (list_all (\<lambda>c. \<not> is_space c) s \<and>
      list_ex (\<lambda>i. s ! i = CHR ''@'' \<and>
                 list_ex (\<lambda>j. s ! j = CHR ''.'') [i + 2 ..< length s - 1])
              [1 ..< length s])"

section \<open>Identifiers and errors\<close>

text \<open>
  An identifier handed to the service either denotes an \<^verbatim>\<open>ObjectId\<close> or is malformed.
  \<^verbatim>\<open>mongoose.Types.ObjectId.isValid\<close> tells the two apart, and \<^verbatim>\<open>toString()\<close> of
  two identifiers is the same string exactly when they are the same identifier.
\<close>

datatype ident = ObjectId nat | Malformed string

fun isValid :: "ident \<Rightarrow> bool" where
  "isValid (ObjectId _) = True"
| "isValid (Malformed _) = False"

text \<open>
  The errors the code throws, one constructor per \<^verbatim>\<open>new Error(...)\<close> of the source, and
  the errors of the object mapper: a failed validation with the message of the first
  failing validator of each path, a failed cast, a violated unique index, and the two
  errors of reading a field of \<^verbatim>\<open>null\<close> and of aborting a committed transaction.
\<close>

datatype error =
    InvalidUserId
  | InvalidSenderId
  | InvalidRecipientId
  | UserNotFound
  | SenderNotFound
  | RecipientNotFound
  | SelfTransfer
  | InvalidAmount
  | InsufficientBalance
  | DuplicateEmail
  | ValidationError "string list"
  | CastError string
  | DuplicateKey
  | TypeError
  | MongoTransactionError

fun intercalate :: "string \<Rightarrow> string list \<Rightarrow> string" where
  "intercalate sep [] = []"
| "intercalate sep [x] = x"
| "intercalate sep (x # y # ys) = x @ sep @ intercalate sep (y # ys)"

fun message :: "error \<Rightarrow> string" where
  "message InvalidUserId = ''Invalid user ID format''"
| "message InvalidSenderId = ''Invalid sender user ID format''"
| "message InvalidRecipientId = ''Invalid recipient user ID format''"
| "message UserNotFound = ''User not found''"
| "message SenderNotFound = ''Sender user not found''"
| "message RecipientNotFound = ''Recipient user not found''"
| "message SelfTransfer = ''Cannot transfer money to yourself''"
| "message InvalidAmount = ''Transfer amount must be greater than 0''"
| "message InsufficientBalance = ''Insufficient balance''"
| "message DuplicateEmail = ''User with this email already exists''"
| "message (ValidationError ms) = ''Validation failed: '' @ intercalate '', '' ms"
| "message (CastError ty) = ''Cast to '' @ ty @ '' failed''"
| "message DuplicateKey = ''E11000 duplicate key error''"
| "message TypeError = ''Cannot read properties of null''"
| "message MongoTransactionError = ''Cannot call abortTransaction after calling commitTransaction''"

section \<open>The two collections\<close>

text \<open>
  A stored document keeps the raw field values; the schema's getter is applied when a
  field is read through a document, its setters when a field is written through one.
  Timestamps are left out: nothing below depends on them.
\<close>

record user =
  user_id :: nat
  name :: string
  email :: string
  balance :: number

datatype status = SUCCESS | FAILED

record transaction =
  transaction_id :: nat
  tx_fromUserId :: ident
  tx_toUserId :: ident
  amount :: number
  status :: status
  description :: string

text \<open>
  The database: both collections in insertion order, the source of fresh
  \<^verbatim>\<open>ObjectId\<close>s, whether the topology is other than \<^verbatim>\<open>Single\<close> (a replica set, so
  that multi-document transactions exist), and the configured \<^verbatim>\<open>INITIAL_BALANCE\<close>.
\<close>

record state =
  users :: "user list"
  transactions :: "transaction list"
  next_id :: nat
  supportsTransactions :: bool
  INITIAL_BALANCE :: "rat option"

subsection \<open>User schema\<close>

text \<open>The getter and the setter of \<^verbatim>\<open>balance\<close>.\<close>

definition balance_get :: "number \<Rightarrow> number" where
  "balance_get v = round2 v"

definition balance_set :: "number \<Rightarrow> number" where
  "balance_set v = round2 v"

text \<open>\<^verbatim>\<open>trim: true\<close> of \<^verbatim>\<open>name\<close>; \<^verbatim>\<open>trim: true, lowercase: true\<close> of \<^verbatim>\<open>email\<close>.\<close>

definition name_set :: "string \<Rightarrow> string" where
  "name_set s = trim s"

definition email_set :: "string \<Rightarrow> string" where
  "email_set s = toLowerCase (trim s)"

text \<open>
  The validators of each path, in the order the schema declares them; a path reports its
  first failing validator.
\<close>

definition validate_name :: "string \<Rightarrow> string list" where
  "validate_name s =
     (if s = [] then [''User name is required'']
      else if length s < 2 then [''Name must be at least 2 characters long'']
      else if 100 < length s then [''Name cannot exceed 100 characters'']
      else [])"

definition validate_email :: "string \<Rightarrow> string list" where
  "validate_email s =
     (if s = [] then [''Email is required'']
      else if \<not> email_match s then [''Please provide a valid email address'']
      else [])"

definition validate_balance :: "number \<Rightarrow> string list" where
  "validate_balance v =
     (if isNaN v then [''Cast to Number failed'']
      else if \<not> num_ge v (Fin 0) then [''Balance cannot be negative'']
      else [])"

definition validate_user :: "user \<Rightarrow> string list" where
  "validate_user u = validate_name (name u) @ validate_email (email u) @ validate_balance (balance u)"

subsection \<open>Transaction schema\<close>

definition amount_get :: "number \<Rightarrow> number" where
  "amount_get v = round2 v"

definition amount_set :: "number \<Rightarrow> number" where
  "amount_set v = round2 v"

definition description_set :: "string \<Rightarrow> string" where
  "description_set s = trim s"

definition validate_amount :: "number \<Rightarrow> string list" where
  "validate_amount v =
     (if isNaN v then [''Cast to Number failed'']
      else if \<not> num_ge v (Fin (1 / 100)) then [''Amount must be greater than 0'']
      else [])"

definition validate_description :: "string \<Rightarrow> string list" where
  "validate_description s =
     (if 500 < length s then [''Description cannot exceed 500 characters''] else [])"

definition validate_ref :: "ident \<Rightarrow> string list" where
  "validate_ref i = (if isValid i then [] else [''Cast to ObjectId failed''])"

definition validate_transaction :: "transaction \<Rightarrow> string list" where
  "validate_transaction t =
     validate_ref (tx_fromUserId t) @ validate_ref (tx_toUserId t) @
     validate_amount (amount t) @ validate_description (description t)"

section \<open>Object mapper operations\<close>

text \<open>
  \<^verbatim>\<open>findById\<close>: the document with that \<^verbatim>\<open>_id\<close>, or \<^verbatim>\<open>null\<close>; an identifier that
  is no \<^verbatim>\<open>ObjectId\<close> cannot be cast.
\<close>

fun findById :: "state \<Rightarrow> ident \<Rightarrow> error + user option" where
  "findById st (ObjectId i) = Inr (find (\<lambda>u. user_id u = i) (users st))"
| "findById st (Malformed s) = Inl (CastError ''ObjectId'')"

text \<open>
  \<^verbatim>\<open>User.findOne({ email })\<close>: the value of a filter passes through the setters of its
  path before it is compared.
\<close>

definition findOne_email :: "state \<Rightarrow> string \<Rightarrow> user option" where
  "findOne_email st e = find (\<lambda>u. email u = email_set e) (users st)"

text \<open>
  \<^verbatim>\<open>findOneAndUpdate(query, { $inc: { balance: d } }, { new: true, runValidators: true })\<close>
  with \<^verbatim>\<open>query\<close> either \<^verbatim>\<open>{ _id }\<close> or \<^verbatim>\<open>{ _id, balance: { $gte: x } }\<close>: one step of
  the store. \<^verbatim>\<open>_id\<close> is the primary key, so the query matches the document with that
  \<^verbatim>\<open>_id\<close> if its stored balance meets the condition, and no document otherwise. On a
  match \<open>d\<close> is added to the stored balance and the updated document is returned; without
  one the result is \<^verbatim>\<open>null\<close>. The values of the query and of the update are cast through
  the schema, where \<^verbatim>\<open>NaN\<close> is no number. Update validators do not cover \<^verbatim>\<open>$inc\<close>.
\<close>

fun replace_first :: "(user \<Rightarrow> bool) \<Rightarrow> user \<Rightarrow> user list \<Rightarrow> user list" where
  "replace_first P v [] = []"
| "replace_first P v (u # us) = (if P u then v # us else u # replace_first P v us)"

definition findOneAndUpdate_inc ::
  "state \<Rightarrow> ident \<Rightarrow> number option \<Rightarrow> number \<Rightarrow> (error + user option) \<times> state" where
  "findOneAndUpdate_inc st i gte d =
     (case i of
        Malformed s \<Rightarrow> (Inl (CastError ''ObjectId''), st)
      | ObjectId n \<Rightarrow>
          if isNaN (balance_set d) \<or> (case gte of None \<Rightarrow> False | Some x \<Rightarrow> isNaN (balance_set x))
          then (Inl (CastError ''Number''), st)
          else (case find (\<lambda>u. user_id u = n) (users st) of
                  None \<Rightarrow> (Inr None, st)
                | Some u \<Rightarrow>
                    if (case gte of None \<Rightarrow> True | Some x \<Rightarrow> num_ge (balance u) (balance_set x))
                    then (Inr (Some (u\<lparr>balance := num_add (balance u) (balance_set d)\<rparr>)),
                          st\<lparr>users := replace_first (\<lambda>v. user_id v = n)
                                         (u\<lparr>balance := num_add (balance u) (balance_set d)\<rparr>)
                                         (users st)\<rparr>)
                    else (Inr None, st)))"

text \<open>
  \<^verbatim>\<open>new User({ name, email, balance })\<close> runs the setters; \<^verbatim>\<open>save()\<close> validates, then
  inserts, and the unique index on \<^verbatim>\<open>email\<close> refuses a second document with the same
  stored email.
\<close>

definition User_new :: "state \<Rightarrow> string \<Rightarrow> string \<Rightarrow> number \<Rightarrow> user" where
  "User_new st n e b =
     \<lparr>user_id = next_id st, name = name_set n, email = email_set e, balance = balance_set b\<rparr>"

definition User_save :: "state \<Rightarrow> user \<Rightarrow> (error + user) \<times> state" where
  "User_save st u =
     (if validate_user u \<noteq> [] then (Inl (ValidationError (validate_user u)), st)
      else if list_ex (\<lambda>v. email v = email u) (users st) then (Inl DuplicateKey, st)
      else (Inr u, st\<lparr>users := users st @ [u], next_id := Suc (next_id st)\<rparr>))"

definition Transaction_new ::
  "state \<Rightarrow> ident \<Rightarrow> ident \<Rightarrow> number \<Rightarrow> status \<Rightarrow> string \<Rightarrow> transaction" where
  "Transaction_new st f t a s d =
     \<lparr>transaction_id = next_id st, tx_fromUserId = f, tx_toUserId = t, amount = amount_set a,
      status = s, description = description_set d\<rparr>"

definition Transaction_save :: "state \<Rightarrow> transaction \<Rightarrow> (error + transaction) \<times> state" where
  "Transaction_save st t =
     (if validate_transaction t \<noteq> [] then (Inl (ValidationError (validate_transaction t)), st)
      else (Inr t, st\<lparr>transactions := transactions st @ [t], next_id := Suc (next_id st)\<rparr>))"

section \<open>User.updateBalance\<close>

definition updateBalance :: "state \<Rightarrow> ident \<Rightarrow> number \<Rightarrow> (error + user) \<times> state" where
  "updateBalance st userId delta =
     (let roundedDelta = round2 delta;
          gte = (if num_lt roundedDelta (Fin 0) then Some (Math_abs roundedDelta) else None)
      in case findOneAndUpdate_inc st userId gte roundedDelta of
           (Inl e, st') \<Rightarrow> (Inl e, st')
         | (Inr None, st') \<Rightarrow> (Inl InsufficientBalance, st')
         | (Inr (Some updatedUser), st') \<Rightarrow> (Inr updatedUser, st'))"

section \<open>WalletService\<close>

record account =
  account_id :: nat
  account_name :: string
  account_email :: string
  account_balance :: number

text \<open>
  \<^verbatim>\<open>createAccount(name, email, initialBalance = null)\<close>. The initial balance is a number
  of the request body, a finite decimal, or absent; the configured default is a decimal,
  100 when the variable is not set.
\<close>

definition createAccount ::
  "state \<Rightarrow> string \<Rightarrow> string \<Rightarrow> rat option \<Rightarrow> (error + account) \<times> state" where
  "createAccount st n e initialBalance =
     (case findOne_email st e of
        Some existingUser \<Rightarrow> (Inl DuplicateEmail, st)
      | None \<Rightarrow>
          (let b = (case initialBalance of
                      Some v \<Rightarrow> Fin v
                    | None \<Rightarrow> (case INITIAL_BALANCE st of Some d \<Rightarrow> Fin d | None \<Rightarrow> Fin 100))
           in case User_save st (User_new st n e b) of
                (Inl err, st') \<Rightarrow> (Inl err, st')
              | (Inr u, st') \<Rightarrow>
                  (Inr \<lparr>account_id = user_id u, account_name = name u, account_email = email u,
                        account_balance = balance_get (balance u)\<rparr>, st')))"

definition getBalance :: "state \<Rightarrow> ident \<Rightarrow> error + account" where
  "getBalance st userId =
     (if \<not> isValid userId then Inl InvalidUserId
      else (case findById st userId of
              Inl e \<Rightarrow> Inl e
            | Inr None \<Rightarrow> Inl UserNotFound
            | Inr (Some u) \<Rightarrow>
                Inr \<lparr>account_id = user_id u, account_name = name u, account_email = email u,
                     account_balance = balance_get (balance u)\<rparr>))"

record party =
  party_id :: nat
  party_name :: string
  party_balance :: number

record transfer_result =
  transactionId :: nat
  result_from :: party
  result_to :: party
  result_amount :: number

definition party_of :: "user \<Rightarrow> party" where
  "party_of u = \<lparr>party_id = user_id u, party_name = name u, party_balance = balance_get (balance u)\<rparr>"

text \<open>
  \<^verbatim>\<open>_transferWithAtomicOps\<close>: every write is visible as soon as it is made, and an error
  leaves the writes made before it in place.
\<close>

definition transferWithAtomicOps ::
  "state \<Rightarrow> ident \<Rightarrow> ident \<Rightarrow> number \<Rightarrow> string \<Rightarrow> (error + transfer_result) \<times> state" where
  "transferWithAtomicOps st fromUserId toUserId transferAmount descr =
     (case findById st fromUserId of Inl e \<Rightarrow> (Inl e, st) | Inr fromUser \<Rightarrow>
      (case findById st toUserId of Inl e \<Rightarrow> (Inl e, st) | Inr toUser \<Rightarrow>
      (case fromUser of None \<Rightarrow> (Inl SenderNotFound, st) | Some fromUser \<Rightarrow>
      (case toUser of None \<Rightarrow> (Inl RecipientNotFound, st) | Some toUser \<Rightarrow>
      if num_lt (balance_get (balance fromUser)) transferAmount then (Inl InsufficientBalance, st)
      else
      (case updateBalance st fromUserId (num_neg transferAmount) of
        (Inl e, st1) \<Rightarrow> (Inl e, st1) | (Inr debited, st1) \<Rightarrow>
      (case updateBalance st1 toUserId transferAmount of
        (Inl e, st2) \<Rightarrow> (Inl e, st2) | (Inr credited, st2) \<Rightarrow>
      (case Transaction_save st2
             (Transaction_new st2 fromUserId toUserId transferAmount SUCCESS descr) of
        (Inl e, st3) \<Rightarrow> (Inl e, st3) | (Inr t, st3) \<Rightarrow>
      (case findById st3 fromUserId of Inl e \<Rightarrow> (Inl e, st3) | Inr updatedFromUser \<Rightarrow>
      (case findById st3 toUserId of Inl e \<Rightarrow> (Inl e, st3) | Inr updatedToUser \<Rightarrow>
      (case updatedFromUser of None \<Rightarrow> (Inl TypeError, st3) | Some uf \<Rightarrow>
      (case updatedToUser of None \<Rightarrow> (Inl TypeError, st3) | Some ut \<Rightarrow>
        (Inr \<lparr>transactionId = transaction_id t, result_from = party_of uf,
              result_to = party_of ut, result_amount = transferAmount\<rparr>, st3))))))))))))"

text \<open>
  \<^verbatim>\<open>_transferWithTransaction\<close>: the reads and writes up to \<^verbatim>\<open>commitTransaction\<close> run
  in a session; an error before the commit aborts the session, which discards its
  writes. After the commit the two accounts are read again outside the session; an error
  there reaches \<^verbatim>\<open>abortTransaction\<close> on a committed session, which throws.
\<close>

definition transferWithTransaction ::
  "state \<Rightarrow> ident \<Rightarrow> ident \<Rightarrow> number \<Rightarrow> string \<Rightarrow> (error + transfer_result) \<times> state" where
  "transferWithTransaction st fromUserId toUserId transferAmount descr =
     (case findById st fromUserId of Inl e \<Rightarrow> (Inl e, st) | Inr fromUser \<Rightarrow>
      (case findById st toUserId of Inl e \<Rightarrow> (Inl e, st) | Inr toUser \<Rightarrow>
      (case fromUser of None \<Rightarrow> (Inl SenderNotFound, st) | Some fromUser \<Rightarrow>
      (case toUser of None \<Rightarrow> (Inl RecipientNotFound, st) | Some toUser \<Rightarrow>
      if num_lt (balance_get (balance fromUser)) transferAmount then (Inl InsufficientBalance, st)
      else
      (case updateBalance st fromUserId (num_neg transferAmount) of
        (Inl e, st1) \<Rightarrow> (Inl e, st) | (Inr debited, st1) \<Rightarrow>
      (case updateBalance st1 toUserId transferAmount of
        (Inl e, st2) \<Rightarrow> (Inl e, st) | (Inr credited, st2) \<Rightarrow>
      (case Transaction_save st2
             (Transaction_new st2 fromUserId toUserId transferAmount SUCCESS descr) of
        (Inl e, st3) \<Rightarrow> (Inl e, st) | (Inr t, st3) \<Rightarrow>
      (case findById st3 fromUserId of
        Inl e \<Rightarrow> (Inl MongoTransactionError, st3) | Inr updatedFromUser \<Rightarrow>
      (case findById st3 toUserId of
        Inl e \<Rightarrow> (Inl MongoTransactionError, st3) | Inr updatedToUser \<Rightarrow>
      (case updatedFromUser of None \<Rightarrow> (Inl MongoTransactionError, st3) | Some uf \<Rightarrow>
      (case updatedToUser of None \<Rightarrow> (Inl MongoTransactionError, st3) | Some ut \<Rightarrow>
        (Inr \<lparr>transactionId = transaction_id t, result_from = party_of uf,
              result_to = party_of ut, result_amount = transferAmount\<rparr>, st3))))))))))))"

text \<open>\<^verbatim>\<open>transferMoney(fromUserId, toUserId, amount, description = '')\<close>.\<close>

definition transferMoney ::
  "state \<Rightarrow> ident \<Rightarrow> ident \<Rightarrow> number \<Rightarrow> string \<Rightarrow> (error + transfer_result) \<times> state" where
  "transferMoney st fromUserId toUserId amt descr =
     (if \<not> isValid fromUserId then (Inl InvalidSenderId, st)
      else if \<not> isValid toUserId then (Inl InvalidRecipientId, st)
      else if fromUserId = toUserId then (Inl SelfTransfer, st)
      else if num_le amt (Fin 0) then (Inl InvalidAmount, st)
      else (let transferAmount = round2 amt
            in if supportsTransactions st
               then transferWithTransaction st fromUserId toUserId transferAmount descr
               else transferWithAtomicOps st fromUserId toUserId transferAmount descr))"

section \<open>The transfer endpoint\<close>

text \<open>
  The body of \<^verbatim>\<open>POST /api/transfer\<close>. A field is absent or holds a value; for
  \<^verbatim>\<open>amount\<close> the value kept is the result of \<^verbatim>\<open>parseFloat(amount)\<close>, which is
  \<^verbatim>\<open>NaN\<close> for an input that does not start with a number.
\<close>

record transfer_request =
  from_user_id :: "ident option"
  to_user_id :: "ident option"
  req_amount :: "number option"
  req_description :: "string option"

record response =
  status_code :: nat
  success :: bool
  res_message :: string
  res_error :: "string option"
  res_data :: "transfer_result option"

text \<open>\<^verbatim>\<open>!from_user_id\<close> holds for an absent field and for the empty string.\<close>

fun truthy :: "ident option \<Rightarrow> bool" where
  "truthy None = False"
| "truthy (Some (ObjectId _)) = True"
| "truthy (Some (Malformed s)) = (s \<noteq> [])"

definition failure :: "nat \<Rightarrow> string \<Rightarrow> response" where
  "failure code msg =
     \<lparr>status_code = code, success = False, res_message = msg, res_error = None, res_data = None\<rparr>"

definition controller_transferMoney :: "state \<Rightarrow> transfer_request \<Rightarrow> response \<times> state" where
  "controller_transferMoney st req =
     (case (from_user_id req, to_user_id req, req_amount req) of
        (Some f, Some t, Some transferAmount) \<Rightarrow>
          if \<not> truthy (Some f) \<or> \<not> truthy (Some t)
          then (failure 400 ''from_user_id, to_user_id, and amount are required'', st)
          else if isNaN transferAmount \<or> num_le transferAmount (Fin 0)
          then (failure 400 ''Amount must be a positive number'', st)
          else (case transferMoney st f t transferAmount
                       (case req_description req of None \<Rightarrow> [] | Some d \<Rightarrow> d) of
                  (Inr result, st') \<Rightarrow>
                    (\<lparr>status_code = 200, success = True,
                      res_message = ''Transfer completed successfully'',
                      res_error = None, res_data = Some result\<rparr>, st')
                | (Inl e, st') \<Rightarrow>
                    if str_includes (message e) ''Insufficient balance''
                    then (failure 400 (message e), st')
                    else if str_includes (message e) ''not found'' \<or> str_includes (message e) ''Invalid''
                    then (failure 404 (message e), st')
                    else if str_includes (message e) ''Cannot transfer money to yourself''
                    then (failure 400 (message e), st')
                    else (\<lparr>status_code = 500, success = False, res_message = ''Transfer failed'',
                           res_error = Some (message e), res_data = None\<rparr>, st'))
      | _ \<Rightarrow> (failure 400 ''from_user_id, to_user_id, and amount are required'', st))"

section \<open>Reference notions and example states\<close>

text \<open>\<^const>\<open>round2\<close> on a finite value.\<close>

definition round2_rat :: "rat \<Rightarrow> rat" where
  "round2_rat q = of_int \<lfloor>q * 100 + 1 / 2\<rfloor> / 100"


text \<open>
  An empty database, and a database holding Alice (\<^verbatim>\<open>_id\<close> 0) and Bob (\<^verbatim>\<open>_id\<close> 1) with
  the given stored balances, with or without support for transactions.
\<close>

definition empty_db :: "bool \<Rightarrow> state" where
  "empty_db tx =
     \<lparr>users = [], transactions = [], next_id = 0, supportsTransactions = tx,
      INITIAL_BALANCE = None\<rparr>"

definition alice_bob :: "rat \<Rightarrow> rat \<Rightarrow> bool \<Rightarrow> state" where
  "alice_bob a b tx =
     \<lparr>users = [\<lparr>user_id = 0, name = ''Alice'', email = ''alice@test.com'', balance = Fin a\<rparr>,
               \<lparr>user_id = 1, name = ''Bob'', email = ''bob@test.com'', balance = Fin b\<rparr>],
      transactions = [], next_id = 2, supportsTransactions = tx, INITIAL_BALANCE = None\<rparr>"

text \<open>The balance that \<^const>\<open>getBalance\<close> reports, if it reports one.\<close>

definition read_balance :: "state \<Rightarrow> ident \<Rightarrow> number option" where
  "read_balance st i = (case getBalance st i of Inl e \<Rightarrow> None | Inr a \<Rightarrow> Some (account_balance a))"

text \<open>
  What a transfer did, on a description of no characters: whether it returned a result,
  the two balances read afterwards, and the status and amount of every ledger record.
\<close>

definition transfer_outcome ::
  "state \<Rightarrow> ident \<Rightarrow> ident \<Rightarrow> number \<Rightarrow> bool \<times> number option \<times> number option \<times> (status \<times> number) list" where
  "transfer_outcome st f t amt =
     (case transferMoney st f t amt [] of
        (res, s) \<Rightarrow>
          (\<not> isl res, read_balance s f, read_balance s t,
           map (\<lambda>x. (status x, amount_get (amount x))) (transactions s)))"


text \<open>The balance a new account starts with: the one given, or the configured default.\<close>

definition default_balance :: "state \<Rightarrow> rat option \<Rightarrow> rat" where
  "default_balance st ib =
     (case ib of Some v \<Rightarrow> v | None \<Rightarrow> (case INITIAL_BALANCE st of Some d \<Rightarrow> d | None \<Rightarrow> 100))"




section \<open>Facts about rounding\<close>

lemma floor_half: "\<lfloor>1 / 2 :: rat\<rfloor> = 0"
  by (rule floor_unique) simp_all

lemma round2_Fin: "round2 (Fin q) = Fin (round2_rat q)"
  by (simp add: round2_def round2_rat_def)

lemma round2_special: "round2 NaN = NaN" "round2 PosInf = PosInf" "round2 NegInf = NegInf"
  by (simp_all add: round2_def)

lemma round2_rat_cents: "round2_rat (of_int k / 100) = of_int k / 100"
proof -
  have "\<lfloor>(of_int k :: rat) + 1 / 2\<rfloor> = k" by (rule floor_unique) simp_all
  then show ?thesis by (simp add: round2_rat_def)
qed

lemma round2_rat_idem: "round2_rat (round2_rat q) = round2_rat q"
  unfolding round2_rat_def[of q] by (rule round2_rat_cents)

lemma round2_rat_neg: "round2_rat (- round2_rat q) = - round2_rat q"
proof -
  have "- round2_rat q = of_int (- \<lfloor>q * 100 + 1 / 2\<rfloor>) / 100"
    by (simp add: round2_rat_def)
  then show ?thesis by (simp only: round2_rat_cents)
qed


lemma round2_rat_mono: "q \<le> r \<Longrightarrow> round2_rat q \<le> round2_rat r"
  by (simp add: round2_rat_def divide_right_mono floor_mono)

lemma round2_rat_0: "round2_rat 0 = 0"
  by (simp add: round2_rat_def floor_half)

lemma round2_rat_nonneg: "0 \<le> q \<Longrightarrow> 0 \<le> round2_rat q"
  using round2_rat_mono[of 0 q] by (simp add: round2_rat_0)

lemma round2_idem: "round2 (round2 v) = round2 v"
  by (cases v) (simp_all add: round2_Fin round2_special round2_rat_idem)


section \<open>Facts about the store\<close>

lemma find_replace_first_same:
  "user_id v = n \<Longrightarrow> find (\<lambda>u. user_id u = n) us = Some u \<Longrightarrow>
   find (\<lambda>u. user_id u = n) (replace_first (\<lambda>w. user_id w = n) v us) = Some v"
  by (induction us) (auto split: if_splits)

lemma find_replace_first_other:
  "user_id v = n \<Longrightarrow> m \<noteq> n \<Longrightarrow>
   find (\<lambda>u. user_id u = m) (replace_first (\<lambda>w. user_id w = n) v us) =
   find (\<lambda>u. user_id u = m) us"
  by (induction us) auto

lemma replace_first_found: "find P us = Some u \<Longrightarrow> replace_first P u us = us"
  by (induction us) (auto split: if_splits)


lemma find_by_id_Some: "find (\<lambda>u. user_id u = n) us = Some u \<Longrightarrow> user_id u = n"
  by (induction us) (auto split: if_splits)


section \<open>What User.updateBalance computes\<close>



lemma updateBalance_Fin:
  assumes "find (\<lambda>u. user_id u = n) (users st) = Some u"
  shows "updateBalance st (ObjectId n) (Fin d) =
    (if round2_rat d < 0 \<and> \<not> num_ge (balance u) (Fin (- round2_rat d))
     then (Inl InsufficientBalance, st)
     else (Inr (u\<lparr>balance := num_add (balance u) (Fin (round2_rat d))\<rparr>),
           st\<lparr>users := replace_first (\<lambda>v. user_id v = n)
                          (u\<lparr>balance := num_add (balance u) (Fin (round2_rat d))\<rparr>) (users st)\<rparr>))"
proof -
  have neg: "round2_rat (- round2_rat d) = - round2_rat d" by (rule round2_rat_neg)
  show ?thesis using assms
    by (simp add: updateBalance_def findOneAndUpdate_inc_def balance_set_def round2_Fin
        round2_rat_idem Let_def neg abs_if)
qed

section \<open>What transferMoney computes\<close>

lemma transferMoney_Fin:
  fixes st :: state and d :: string and i j :: nat and q bs bt :: rat and uf ut :: user
  assumes fi: "find (\<lambda>u. user_id u = i) (users st) = Some uf"
    and fj: "find (\<lambda>u. user_id u = j) (users st) = Some ut"
    and ij: "i \<noteq> j"
    and bs: "balance uf = Fin bs" and bt: "balance ut = Fin bt"
    and q: "0 < q"
  defines "a \<equiv> round2_rat q"
  defines "uf' \<equiv> uf\<lparr>balance := Fin (bs - a)\<rparr>"
  defines "ut' \<equiv> ut\<lparr>balance := Fin (bt + a)\<rparr>"
  defines "us2 \<equiv> replace_first (\<lambda>v. user_id v = j) ut' (replace_first (\<lambda>v. user_id v = i) uf' (users st))"
  defines "t \<equiv> \<lparr>transaction_id = next_id st, tx_fromUserId = ObjectId i, tx_toUserId = ObjectId j,
                  amount = Fin a, status = SUCCESS, description = trim d\<rparr>"
  shows "transferMoney st (ObjectId i) (ObjectId j) (Fin q) d =
    (if round2_rat bs < a \<or> (0 < a \<and> bs < a) then (Inl InsufficientBalance, st)
     else if a < 1 / 100 \<or> 500 < length (trim d)
     then (Inl (ValidationError (validate_transaction t)),
           if supportsTransactions st then st else st\<lparr>users := us2\<rparr>)
     else (Inr \<lparr>transactionId = next_id st, result_from = party_of uf', result_to = party_of ut',
                result_amount = Fin a\<rparr>,
           st\<lparr>users := us2, transactions := transactions st @ [t], next_id := Suc (next_id st)\<rparr>))"
proof -
  have a0: "0 \<le> a" unfolding a_def using q by (simp add: round2_rat_nonneg)
  have ra: "round2_rat a = a" "round2_rat (- a) = - a"
    unfolding a_def by (rule round2_rat_idem, rule round2_rat_neg)
  have idf: "user_id uf = i" and idt: "user_id ut = j"
    using fi fj by (auto dest: find_by_id_Some)
  have fj1: "find (\<lambda>u. user_id u = j)
               (replace_first (\<lambda>v. user_id v = i) uf' (users st)) = Some ut"
    using fj ij idf by (simp add: find_replace_first_other uf'_def)
  have step1: "updateBalance st (ObjectId i) (Fin (- a)) =
      (if 0 < a \<and> bs < a then (Inl InsufficientBalance, st)
       else (Inr uf', st\<lparr>users := replace_first (\<lambda>v. user_id v = i) uf' (users st)\<rparr>))"
    by (simp add: updateBalance_Fin[OF fi] ra bs uf'_def num_ge_def not_le)
  have step2: "updateBalance (st\<lparr>users := replace_first (\<lambda>v. user_id v = i) uf' (users st)\<rparr>)
        (ObjectId j) (Fin a) = (Inr ut', st\<lparr>users := us2\<rparr>)"
    using fj1 a0 by (simp add: updateBalance_Fin[where u = ut] ra bt ut'_def us2_def)
  have fi3: "find (\<lambda>u. user_id u = i) us2 = Some uf'"
    unfolding us2_def using fi ij idf idt
    by (simp add: find_replace_first_other find_replace_first_same uf'_def ut'_def)
  have fj3: "find (\<lambda>u. user_id u = j) us2 = Some ut'"
    unfolding us2_def using fj1 idt by (simp add: find_replace_first_same ut'_def)
  have tn: "Transaction_new (st\<lparr>users := us2\<rparr>) (ObjectId i) (ObjectId j) (Fin a) SUCCESS d = t"
    by (simp add: Transaction_new_def t_def amount_set_def round2_Fin ra description_set_def)
  have vt: "validate_transaction t = [] \<longleftrightarrow> \<not> (a < 1 / 100 \<or> 500 < length (trim d))"
    by (auto simp add: validate_transaction_def validate_ref_def validate_amount_def
        validate_description_def t_def num_ge_def)
  have pre: "num_lt (balance_get (balance uf)) (Fin a) \<longleftrightarrow> round2_rat bs < a"
    by (simp add: bs balance_get_def round2_Fin)
  have sel: "transaction_id t = next_id st" by (simp add: t_def)
  show ?thesis
    using q ij
    by (simp add: transferMoney_def transferWithAtomicOps_def transferWithTransaction_def
        round2_Fin a_def[symmetric] fi fj pre step1 step2 tn Transaction_save_def vt fi3 fj3 sel
        Let_def)
qed

lemma transferMoney_PosInf:
  assumes "find (\<lambda>u. user_id u = i) (users st) = Some uf"
    and "find (\<lambda>u. user_id u = j) (users st) = Some ut"
    and "i \<noteq> j" and "balance uf = Fin bs"
  shows "transferMoney st (ObjectId i) (ObjectId j) PosInf d = (Inl InsufficientBalance, st)"
  using assms
  by (simp add: transferMoney_def transferWithAtomicOps_def transferWithTransaction_def
      round2_special balance_get_def round2_Fin)



section \<open>What createAccount computes\<close>

lemma createAccount_eq:
  "createAccount st n e ib =
    (if \<exists>u \<in> set (users st). email u = email_set e then (Inl DuplicateEmail, st)
     else if validate_user (User_new st n e (Fin (default_balance st ib))) \<noteq> []
     then (Inl (ValidationError (validate_user (User_new st n e (Fin (default_balance st ib))))), st)
     else (Inr \<lparr>account_id = next_id st, account_name = name_set n, account_email = email_set e,
                account_balance = balance_get (balance_set (Fin (default_balance st ib)))\<rparr>,
           st\<lparr>users := users st @ [User_new st n e (Fin (default_balance st ib))],
              next_id := Suc (next_id st)\<rparr>))"
proof (cases "find (\<lambda>u. email u = email_set e) (users st)")
  case None
  then have no: "\<not> (\<exists>u \<in> set (users st). email u = email_set e)"
    by (simp add: find_None_iff)
  then have nk: "\<not> list_ex (\<lambda>v. email v = email (User_new st n e (Fin (default_balance st ib)))) (users st)"
    by (simp add: list_ex_iff User_new_def)
  have b: "(case ib of Some v \<Rightarrow> Fin v
            | None \<Rightarrow> (case INITIAL_BALANCE st of Some d \<Rightarrow> Fin d | None \<Rightarrow> Fin 100)) =
           Fin (default_balance st ib)"
    by (simp add: default_balance_def split: option.splits)
  have sel: "user_id (User_new st n e x) = next_id st" "name (User_new st n e x) = name_set n"
    "email (User_new st n e x) = email_set e" "balance (User_new st n e x) = balance_set x" for x
    by (simp_all add: User_new_def)
  show ?thesis
    using None no nk
    by (simp add: createAccount_def findOne_email_def b User_save_def sel Let_def)
next
  case (Some u)
  then have "\<exists>u \<in> set (users st). email u = email_set e"
    by (auto simp add: find_Some_iff)
  with Some show ?thesis
    by (simp add: createAccount_def findOne_email_def)
qed

lemma is_space_lower_char: "is_space (lower_char c) = is_space c"
  by (auto simp add: is_space_def lower_char_def split: option.splits if_splits)

lemma dropWhile_lower: "dropWhile is_space (map lower_char s) = map lower_char (dropWhile is_space s)"
  by (induction s) (simp_all add: is_space_lower_char)

lemma trim_toLowerCase: "trim (toLowerCase s) = toLowerCase (trim s)"
  by (simp add: trim_def toLowerCase_def dropWhile_lower rev_map)

lemma email_set_case: "toLowerCase e2 = toLowerCase e1 \<Longrightarrow> email_set e2 = email_set e1"
proof -
  assume "toLowerCase e2 = toLowerCase e1"
  then have "trim (toLowerCase e2) = trim (toLowerCase e1)" by (rule arg_cong)
  then show ?thesis by (simp only: email_set_def trim_toLowerCase)
qed

section \<open>Facts about the balance invariant\<close>










section \<open>The conditional adjustment\<close>

text \<open>
  C1. The claim: \<^verbatim>\<open>User.updateBalance\<close> with delta \<open>d\<close> adds \<open>d\<close> to the balance exactly
  when the account exists and the result is not negative, fails with insufficient balance
  exactly when \<open>d < 0\<close> and the balance is below \<open>|d|\<close>, and fails with a distinct
  not-found error when no account has the identifier. On an existing account the code
  decides on the delta rounded to 2 fractional digits: if the rounded delta is not
  negative, or the stored balance is at least its magnitude, the adjustment succeeds,
  returns the account with the rounded delta added to its balance, and that account is
  what the identifier resolves to afterwards; otherwise it fails with
  \<^const>\<open>InsufficientBalance\<close> and the database is unchanged.
\<close>

theorem conditional_adjust:
  assumes u: "findById st i = Inr (Some u)"
  shows "(num_le (Fin 0) (round2 (Fin d)) \<or> num_ge (balance u) (Math_abs (round2 (Fin d))) \<longrightarrow>
            fst (updateBalance st i (Fin d)) =
              Inr (u\<lparr>balance := num_add (balance u) (round2 (Fin d))\<rparr>) \<and>
            findById (snd (updateBalance st i (Fin d))) i =
              Inr (Some (u\<lparr>balance := num_add (balance u) (round2 (Fin d))\<rparr>))) \<and>
         (\<not> (num_le (Fin 0) (round2 (Fin d)) \<or> num_ge (balance u) (Math_abs (round2 (Fin d)))) \<longrightarrow>
            updateBalance st i (Fin d) = (Inl InsufficientBalance, st))"
proof -
  obtain n where i: "i = ObjectId n" using u by (cases i) simp_all
  have f: "find (\<lambda>u. user_id u = n) (users st) = Some u" using u i by simp
  have idu: "user_id u = n" using f by (rule find_by_id_Some)
  show ?thesis
    unfolding i updateBalance_Fin[OF f] round2_Fin
    using f idu by (auto simp add: find_replace_first_same abs_if not_le not_less)
qed

theorem conditional_adjust_witness:
  "findById (alice_bob 100 50 False) (ObjectId 0) =
     Inr (Some \<lparr>user_id = 0, name = ''Alice'', email = ''alice@test.com'', balance = Fin 100\<rparr>) \<and>
   num_ge (Fin 100) (Math_abs (round2 (Fin (- 30)))) \<and>
   fst (updateBalance (alice_bob 100 50 False) (ObjectId 0) (Fin (- 30))) =
     Inr \<lparr>user_id = 0, name = ''Alice'', email = ''alice@test.com'', balance = Fin 70\<rparr> \<and>
   \<not> (num_le (Fin 0) (round2 (Fin (- 1000))) \<or> num_ge (Fin 100) (Math_abs (round2 (Fin (- 1000))))) \<and>
   updateBalance (alice_bob 100 50 False) (ObjectId 0) (Fin (- 1000)) =
     (Inl InsufficientBalance, alice_bob 100 50 False)"
proof -
  have f: "findById (alice_bob 100 50 False) (ObjectId 0) =
     Inr (Some \<lparr>user_id = 0, name = ''Alice'', email = ''alice@test.com'', balance = Fin 100\<rparr>)"
    by (simp add: alice_bob_def)
  have r: "round2 (Fin (- 30)) = Fin (- 30)" "round2 (Fin (- 1000)) = Fin (- 1000)"
    by code_simp+
  show ?thesis
    using f conditional_adjust[OF f, of "- 30"] conditional_adjust[OF f, of "- 1000"]
    by (simp add: r num_ge_def)
qed

text \<open>
  With Alice and Bob in the database, a credit of 10 to the unknown \<^verbatim>\<open>_id\<close> 7 throws
  \<^verbatim>\<open>Insufficient balance\<close>: the code has one error for every \<^verbatim>\<open>null\<close> result of the
  update. And a debit of 0.004 from Alice's balance of 0 succeeds and changes nothing: the
  delta is rounded to 0 before the balance is looked at.
\<close>

theorem conditional_adjust_counterexample:
  "updateBalance (alice_bob 100 50 False) (ObjectId 7) (Fin 10) =
     (Inl InsufficientBalance, alice_bob 100 50 False) \<and>
   updateBalance (alice_bob 0 50 False) (ObjectId 0) (Fin (- 1 / 250)) =
     (Inr \<lparr>user_id = 0, name = ''Alice'', email = ''alice@test.com'', balance = Fin 0\<rparr>,
      alice_bob 0 50 False)"
  by code_simp

section \<open>Committed transfers\<close>



section \<open>Transfers beyond the balance\<close>

text \<open>
  C3. The claim: a transfer whose amount exceeds the sender's balance fails with
  insufficient balance and changes nothing. The comparison is made with the normalized
  amount: when both accounts exist, the identifiers differ and the amount passes the
  positivity check, a transfer whose normalized amount exceeds the sender's stored
  balance, itself not negative, fails with \<^const>\<open>InsufficientBalance\<close>, and the database
  afterwards is the database before: no balance has changed and no record was written,
  on either execution path.
\<close>

theorem insufficient_balance_transfer:
  assumes f: "findById st f = Inr (Some uf)" and t: "findById st t = Inr (Some ut)"
    and ft: "f \<noteq> t" and pos: "\<not> num_le amt (Fin 0)"
    and nonneg: "num_le (Fin 0) (balance uf)"
    and less: "num_lt (balance uf) (round2 amt)"
  shows "transferMoney st f t amt d = (Inl InsufficientBalance, st)"
proof -
  obtain i j where ids: "f = ObjectId i" "t = ObjectId j"
    using f t by (cases f; cases t) simp_all
  have fi: "find (\<lambda>u. user_id u = i) (users st) = Some uf"
    and fj: "find (\<lambda>u. user_id u = j) (users st) = Some ut"
    and ij: "i \<noteq> j"
    using f t ft ids by simp_all
  obtain b where b: "balance uf = Fin b" "0 \<le> b"
    using nonneg less by (cases "balance uf"; cases "round2 amt") simp_all
  show ?thesis
  proof (cases amt)
    case NaN
    with less show ?thesis by (simp add: round2_special b)
  next
    case NegInf
    with pos show ?thesis by simp
  next
    case PosInf
    then show ?thesis unfolding ids by (simp add: transferMoney_PosInf[OF fi fj ij b(1)])
  next
    case (Fin q)
    define a where "a = round2_rat q"
    have ba: "b < a" using less by (simp add: Fin round2_Fin b a_def)
    have ra: "round2_rat (- a) = - a" unfolding a_def by (rule round2_rat_neg)
    have step1: "updateBalance st (ObjectId i) (Fin (- a)) = (Inl InsufficientBalance, st)"
      using ba b by (simp add: updateBalance_Fin[OF fi] ra num_ge_def)
    show ?thesis
      using pos ij
      by (simp add: ids Fin transferMoney_def transferWithAtomicOps_def
          transferWithTransaction_def round2_Fin a_def[symmetric] fi fj step1 Let_def)
  qed
qed

theorem insufficient_balance_transfer_witness:
  "findById (alice_bob 70 80 False) (ObjectId 0) =
     Inr (Some \<lparr>user_id = 0, name = ''Alice'', email = ''alice@test.com'', balance = Fin 70\<rparr>) \<and>
   findById (alice_bob 70 80 False) (ObjectId 1) =
     Inr (Some \<lparr>user_id = 1, name = ''Bob'', email = ''bob@test.com'', balance = Fin 80\<rparr>) \<and>
   ObjectId 0 \<noteq> ObjectId 1 \<and> \<not> num_le (Fin 1000) (Fin 0) \<and> num_le (Fin 0) (Fin 70) \<and>
   num_lt (Fin 70) (round2 (Fin 1000)) \<and>
   transferMoney (alice_bob 70 80 False) (ObjectId 0) (ObjectId 1) (Fin 1000) [] =
     (Inl InsufficientBalance, alice_bob 70 80 False)"
proof -
  have f: "findById (alice_bob 70 80 False) (ObjectId 0) =
     Inr (Some \<lparr>user_id = 0, name = ''Alice'', email = ''alice@test.com'', balance = Fin 70\<rparr>)"
    and t: "findById (alice_bob 70 80 False) (ObjectId 1) =
     Inr (Some \<lparr>user_id = 1, name = ''Bob'', email = ''bob@test.com'', balance = Fin 80\<rparr>)"
    by (simp_all add: alice_bob_def)
  have r: "round2 (Fin 1000) = Fin 1000"
    by (simp add: round2_Fin round2_rat_def floor_unique)
  have "transferMoney (alice_bob 70 80 False) (ObjectId 0) (ObjectId 1) (Fin 1000) [] =
     (Inl InsufficientBalance, alice_bob 70 80 False)"
    by (rule insufficient_balance_transfer[OF f t]) (simp_all add: r)
  with f t r show ?thesis by simp
qed

text \<open>
  An amount above the balance whose normalized value is not: Alice holds 70 and sends
  70.004, which is normalized to 70.00. The transfer is committed, and leaves Alice with 0,
  Bob with 150 and a record of 70.
\<close>

theorem raw_amount_counterexample:
  "num_lt (Fin 70) (Fin (70004 / 1000)) \<and>
   transfer_outcome (alice_bob 70 80 False) (ObjectId 0) (ObjectId 1) (Fin (70004 / 1000)) =
     (True, Some (Fin 0), Some (Fin 150), [(SUCCESS, Fin 70)]) \<and>
   transfer_outcome (alice_bob 70 80 True) (ObjectId 0) (ObjectId 1) (Fin (70004 / 1000)) =
     (True, Some (Fin 0), Some (Fin 150), [(SUCCESS, Fin 70)])"
  by code_simp

section \<open>The order of validation\<close>




section \<open>Invalid amounts\<close>

text \<open>
  C6. The claim: every amount that is not a finite positive number is refused as an
  invalid amount before any write. The endpoint, given both identifiers, refuses every
  amount that is \<^verbatim>\<open>NaN\<close> (which is what \<^verbatim>\<open>parseFloat\<close> makes of a non-numeric input),
  zero or negative, and the database is untouched; the service, once the identifiers have
  passed, refuses every amount that is zero or negative.
\<close>

theorem invalid_amount_rejected:
  "(truthy (Some f) \<and> truthy (Some t) \<and> (isNaN amt \<or> num_le amt (Fin 0)) \<longrightarrow>
      controller_transferMoney st
        \<lparr>from_user_id = Some f, to_user_id = Some t, req_amount = Some amt, req_description = d\<rparr> =
      (failure 400 ''Amount must be a positive number'', st)) \<and>
   (isValid f \<and> isValid t \<and> f \<noteq> t \<and> num_le amt (Fin 0) \<longrightarrow>
      transferMoney st f t amt d' = (Inl InvalidAmount, st))"
  by (simp add: controller_transferMoney_def transferMoney_def)

theorem invalid_amount_rejected_witness:
  "truthy (Some (ObjectId 0)) \<and> truthy (Some (ObjectId 1)) \<and> isNaN NaN \<and> num_le (Fin (- 10)) (Fin 0) \<and>
   controller_transferMoney (alice_bob 100 50 False)
     \<lparr>from_user_id = Some (ObjectId 0), to_user_id = Some (ObjectId 1), req_amount = Some NaN,
      req_description = None\<rparr> =
     (failure 400 ''Amount must be a positive number'', alice_bob 100 50 False) \<and>
   controller_transferMoney (alice_bob 100 50 False)
     \<lparr>from_user_id = Some (ObjectId 0), to_user_id = Some (ObjectId 1), req_amount = Some (Fin (- 10)),
      req_description = None\<rparr> =
     (failure 400 ''Amount must be a positive number'', alice_bob 100 50 False) \<and>
   transferMoney (alice_bob 100 50 False) (ObjectId 0) (ObjectId 1) (Fin (- 10)) [] =
     (Inl InvalidAmount, alice_bob 100 50 False)"
  using invalid_amount_rejected[of "ObjectId 0" "ObjectId 1" NaN "alice_bob 100 50 False" None "[]"]
    invalid_amount_rejected[of "ObjectId 0" "ObjectId 1" "Fin (- 10)" "alice_bob 100 50 False" None "[]"]
  by simp

text \<open>
  \<open>+\<infinity>\<close> is not a finite positive number, and neither check refuses it: the request
  reaches the balance check, and fails there with insufficient balance.
\<close>

theorem infinite_amount_counterexample:
  "controller_transferMoney (alice_bob 100 50 False)
     \<lparr>from_user_id = Some (ObjectId 0), to_user_id = Some (ObjectId 1), req_amount = Some PosInf,
      req_description = None\<rparr> =
     (failure 400 ''Insufficient balance'', alice_bob 100 50 False) \<and>
   transferMoney (alice_bob 100 50 False) (ObjectId 0) (ObjectId 1) PosInf [] =
     (Inl InsufficientBalance, alice_bob 100 50 False)"
  by code_simp

section \<open>Rounding of balances\<close>




section \<open>Duplicate emails\<close>

text \<open>
  C8. Account creation fails with \<^const>\<open>DuplicateEmail\<close>, and leaves the database as it
  was, whenever an account is stored under the normalized (trimmed, lower-case) form of
  the email given. In particular, once an account has been created with an email, creating
  another with an email that differs from it only in letter case fails that way.
\<close>

theorem duplicate_email:
  "((\<exists>u \<in> set (users st). email u = email_set e) \<longrightarrow>
      createAccount st n e ib = (Inl DuplicateEmail, st)) \<and>
   (createAccount st n1 e1 ib1 = (Inr a, st1) \<and> toLowerCase e2 = toLowerCase e1 \<longrightarrow>
      createAccount st1 n2 e2 ib2 = (Inl DuplicateEmail, st1))"
proof (intro conjI impI)
  assume "\<exists>u \<in> set (users st). email u = email_set e"
  then show "createAccount st n e ib = (Inl DuplicateEmail, st)"
    by (simp add: createAccount_eq)
next
  assume h: "createAccount st n1 e1 ib1 = (Inr a, st1) \<and> toLowerCase e2 = toLowerCase e1"
  then have c: "createAccount st n1 e1 ib1 = (Inr a, st1)" by simp
  from c have s1: "st1 = snd (createAccount st n1 e1 ib1)"
    and ok: "fst (createAccount st n1 e1 ib1) = Inr a" by simp_all
  have "users st1 = users st @ [User_new st n1 e1 (Fin (default_balance st ib1))]"
    using ok unfolding s1 createAccount_eq[of st n1 e1 ib1]
    by (simp split: if_splits)
  then have "\<exists>u \<in> set (users st1). email u = email_set e1"
    by (simp add: User_new_def)
  moreover have "email_set e2 = email_set e1" using h by (intro email_set_case) simp
  ultimately show "createAccount st1 n2 e2 ib2 = (Inl DuplicateEmail, st1)"
    by (simp add: createAccount_eq[of st1])
qed

theorem duplicate_email_witness:
  "(case createAccount (empty_db False) ''Charlie'' ''charlie@example.com'' (Some 100) of
      (Inl e, s) \<Rightarrow> False
    | (Inr a, s) \<Rightarrow>
        toLowerCase ''Charlie@Example.COM'' = toLowerCase ''charlie@example.com'' \<and>
        createAccount s ''Charlie Duplicate'' ''Charlie@Example.COM'' (Some 50) =
          (Inl DuplicateEmail, s) \<and>
        length (users s) = 1)"
proof -
  obtain res s where rs:
    "createAccount (empty_db False) ''Charlie'' ''charlie@example.com'' (Some 100) = (res, s)"
    by (cases "createAccount (empty_db False) ''Charlie'' ''charlie@example.com'' (Some 100)")
  have "\<not> isl (fst (createAccount (empty_db False) ''Charlie'' ''charlie@example.com'' (Some 100)))"
    and len: "length (users (snd (createAccount (empty_db False) ''Charlie'' ''charlie@example.com'' (Some 100)))) = 1"
    by code_simp+
  then obtain a where a: "res = Inr a" using rs by (cases res) simp_all
  have lc: "toLowerCase ''Charlie@Example.COM'' = toLowerCase ''charlie@example.com''"
    by code_simp
  from duplicate_email[where st = "empty_db False" and ?n1.0 = "''Charlie''"
      and ?e1.0 = "''charlie@example.com''" and ?ib1.0 = "Some 100" and a = a and ?st1.0 = s
      and ?e2.0 = "''Charlie@Example.COM''" and ?n2.0 = "''Charlie Duplicate''" and ?ib2.0 = "Some 50"]
  show ?thesis
    unfolding rs a using rs a lc len by simp
qed

section \<open>Amounts that round to zero\<close>

text \<open>
  C9. A positive amount that is normalized to 0.00, sent between two existing accounts,
  the sender's balance not negative: the positivity check accepts it, the debit and the
  credit are adjustments by zero and succeed without changing the database, and the
  transfer then fails at the ledger write, where the schema refuses an amount below 0.01.
  The caller receives that validation error (with the error of the description, if it is
  longer than 500 characters), not \<^const>\<open>InvalidAmount\<close>, and the database is as
  before, on either execution path.
\<close>

theorem rounds_to_zero_transfer:
  assumes f: "findById st f = Inr (Some uf)" and t: "findById st t = Inr (Some ut)"
    and ft: "f \<noteq> t"
    and bs: "balance uf = Fin bs" "0 \<le> bs" and bt: "balance ut = Fin bt"
    and q: "0 < q" and z: "round2 (Fin q) = Fin 0"
  shows "\<not> num_le (Fin q) (Fin 0) \<and>
         updateBalance st f (num_neg (round2 (Fin q))) = (Inr uf, st) \<and>
         updateBalance st t (round2 (Fin q)) = (Inr ut, st) \<and>
         transferMoney st f t (Fin q) d =
           (Inl (ValidationError (''Amount must be greater than 0'' # validate_description (trim d))), st)"
proof -
  obtain i j where ids: "f = ObjectId i" "t = ObjectId j"
    using f t by (cases f; cases t) simp_all
  have fi: "find (\<lambda>u. user_id u = i) (users st) = Some uf"
    and fj: "find (\<lambda>u. user_id u = j) (users st) = Some ut"
    and ij: "i \<noteq> j"
    using f t ft ids by simp_all
  have a: "round2_rat q = 0" using z by (simp add: round2_Fin)
  have uf: "uf\<lparr>balance := Fin bs\<rparr> = uf" and ut: "ut\<lparr>balance := Fin bt\<rparr> = ut"
    using bs bt by (metis user.surjective user.update_convs(4))+
  have rf: "replace_first (\<lambda>v. user_id v = i) uf (users st) = users st"
    and rt: "replace_first (\<lambda>v. user_id v = j) ut (users st) = users st"
    using fi fj by (simp_all add: replace_first_found)
  have r0: "0 \<le> round2_rat bs" using bs(2) by (rule round2_rat_nonneg)
  have debit: "updateBalance st f (num_neg (round2 (Fin q))) = (Inr uf, st)"
    by (simp add: z ids updateBalance_Fin[OF fi] round2_rat_0 bs uf rf)
  have credit: "updateBalance st t (round2 (Fin q)) = (Inr ut, st)"
    by (simp add: z ids updateBalance_Fin[OF fj] round2_rat_0 bt ut rt)
  have "transferMoney st f t (Fin q) d =
           (Inl (ValidationError (''Amount must be greater than 0'' # validate_description (trim d))), st)"
    unfolding ids transferMoney_Fin[OF fi fj ij bs(1) bt q]
    using r0
    by (simp add: a uf ut rf rt validate_transaction_def validate_ref_def validate_amount_def
        num_ge_def)
  with debit credit q show ?thesis by simp
qed

theorem rounds_to_zero_transfer_witness:
  "(0::rat) < 1 / 250 \<and> round2 (Fin (1 / 250)) = Fin 0 \<and> \<not> num_le (Fin (1 / 250)) (Fin 0) \<and>
   transferMoney (alice_bob 100 50 False) (ObjectId 0) (ObjectId 1) (Fin (1 / 250)) [] =
     (Inl (ValidationError [''Amount must be greater than 0'']), alice_bob 100 50 False) \<and>
   transferMoney (alice_bob 100 50 True) (ObjectId 0) (ObjectId 1) (Fin (1 / 250)) [] =
     (Inl (ValidationError [''Amount must be greater than 0'']), alice_bob 100 50 True)"
proof -
  have f: "findById (alice_bob 100 50 tx) (ObjectId 0) =
      Inr (Some \<lparr>user_id = 0, name = ''Alice'', email = ''alice@test.com'', balance = Fin 100\<rparr>)"
    and t: "findById (alice_bob 100 50 tx) (ObjectId 1) =
      Inr (Some \<lparr>user_id = 1, name = ''Bob'', email = ''bob@test.com'', balance = Fin 50\<rparr>)"
    for tx
    by (simp_all add: alice_bob_def)
  have z: "round2 (Fin (1 / 250)) = Fin 0"
    by (simp add: round2_Fin round2_rat_def floor_unique)
  have v: "validate_description (trim []) = []"
    by (simp add: validate_description_def trim_def)
  show ?thesis
    using rounds_to_zero_transfer[where st = "alice_bob 100 50 False" and bs = 100 and bt = 50
        and q = "1 / 250" and d = "[]", OF f t]
      rounds_to_zero_transfer[where st = "alice_bob 100 50 True" and bs = 100 and bt = 50
        and q = "1 / 250" and d = "[]", OF f t]
    by (simp add: z v)
qed

section \<open>Preservation of the balance invariant\<close>



end
